theory Spec2Isabelle
  imports Complex_Main
begin

section \<open>Screencast overlay settings (developerActions.ts)\<close>

text \<open>
  \<^verbatim>\<open>configurationService.getValue<number>(key)\<close> yields a number, or nothing when the key
  has no value. A number read from the settings is finite and is only compared, so it is
  modelled as a \<^typ>\<open>real\<close>; \<open>None\<close> is \<^verbatim>\<open>undefined\<close>.
\<close>

type_synonym config_number = "real option"

text \<open>
  \<^verbatim>\<open>value || fallback\<close> on a number: the fallback is taken when the value is falsy, which
  for numbers read from the settings means \<^verbatim>\<open>undefined\<close> or \<^verbatim>\<open>0\<close>.
\<close>

definition or_number :: "config_number \<Rightarrow> real \<Rightarrow> real" where
  "or_number v fallback = (case v of None \<Rightarrow> fallback | Some x \<Rightarrow> if x = 0 then fallback else x)"

text \<open>
  Modelled from the spec: \<^verbatim>\<open>clamp\<close> of \<^verbatim>\<open>vs/base/common/numbers\<close> is imported by
  developerActions.ts and its body is not among the source files. The spec speaks of settings
  with "defaults and clamped ranges"; the value is brought into the range \<open>[min, max]\<close>,
  \<^verbatim>\<open>Math.min(Math.max(value, min), max)\<close>.
\<close>

definition clamp :: "real \<Rightarrow> real \<Rightarrow> real \<Rightarrow> real" where
  "clamp v lo hi = min (max v lo) hi"

text \<open>
  The four update closures of \<^verbatim>\<open>ToggleScreencastModeAction.run\<close>, as functions of the
  configuration value they read. The second argument of \<open>or_number\<close> is the fallback of the
  \<^verbatim>\<open>||\<close>, taken for a value that is absent or 0; it is not the default the setting is
  registered with (the vertical offset is registered with the default 20 and falls back to 0).
\<close>

definition updateMouseIndicatorSize :: "config_number \<Rightarrow> real" where
  "updateMouseIndicatorSize v = clamp (or_number v 20) 20 100"

definition updateKeyboardFontSize :: "config_number \<Rightarrow> real" where
  "updateKeyboardFontSize v = clamp (or_number v 56) 20 100"

definition updateKeyboardMarker :: "config_number \<Rightarrow> real" where
  "updateKeyboardMarker v = clamp (or_number v 0) 0 90"

definition updateKeyboardMarkerTimeout :: "config_number \<Rightarrow> real" where
  "updateKeyboardMarkerTimeout v = clamp (or_number v 800) 500 5000"

section \<open>Interactive session bridge (mainThreadInteractiveSession.ts)\<close>

subsection \<open>Composite request keys\<close>

text \<open>
  Provider handles and session ids are integers. The bridge keys its progress callbacks by
  the template string \<^verbatim>\<open>`${handle}_${sessionId}`\<close>, which renders both integers in decimal, a
  negative one with a leading minus sign (as JavaScript does for every integer below
  \<open>10\<^sup>2\<^sup>1\<close> in magnitude).
\<close>

definition digitChar :: "nat \<Rightarrow> char" where
  "digitChar d = ''0123456789'' ! d"

fun digits :: "nat \<Rightarrow> string" where
  "digits n = (if n < 10 then [digitChar n] else digits (n div 10) @ [digitChar (n mod 10)])"

declare digits.simps [simp del]

definition numberToString :: "int \<Rightarrow> string" where
  "numberToString i = (if i < 0 then CHR ''-'' # digits (nat (- i)) else digits (nat i))"

definition requestKey :: "int \<Rightarrow> int \<Rightarrow> string" where
  "requestKey handle sessionId = numberToString handle @ ''_'' @ numberToString sessionId"

subsection \<open>Data\<close>

type_synonym URI = string

datatype error = Error string

record IInteractiveProgress =
  responsePart :: string

text \<open>What the remote side answers to \<^verbatim>\<open>$prepareInteractiveSession\<close>; an optional field that
  is absent is \<open>None\<close>.\<close>

record IInteractiveSessionDto =
  dto_id :: int
  dto_requesterUsername :: "string option"
  dto_requesterAvatarIconUri :: "URI option"
  dto_responderUsername :: "string option"
  dto_responderAvatarIconUri :: "URI option"

text \<open>What the remote side answers to \<^verbatim>\<open>$provideInteractiveReply\<close>; the bridge spreads it
  into the response without looking at it.\<close>

record IInteractiveResponseDto =
  dto_followups :: "string list option"

text \<open>An entry of \<^verbatim>\<open>interactiveSessionContribService.registeredProviders\<close>, the static
  contribution list.\<close>

record IInteractiveSessionProviderContribution =
  contribution_id :: string
  extensionIcon :: "URI option"

text \<open>The calls the bridge issues on \<^verbatim>\<open>_proxy\<close>, with the arguments that identify them.\<close>

datatype remote_call =
    PrepareInteractiveSession int
  | ProvideInteractiveReply int int string
  | ReleaseSession int

text \<open>
  A progress callback is a function of the caller of \<^verbatim>\<open>provideReply\<close>. The bridge stores it
  and calls it; what the call does is the caller's business. It is modelled by its identity
  and by whether a call with a given payload returns (\<open>None\<close>) or throws.
\<close>

record progress_callback =
  callback_id :: nat
  callback_outcome :: "IInteractiveProgress \<Rightarrow> error option"

text \<open>The provider object that \<^verbatim>\<open>$registerInteractiveSessionProvider\<close> builds: its two data
  fields and the variables \<^verbatim>\<open>handle\<close> and \<^verbatim>\<open>registration\<close> its closures capture.\<close>

record IInteractiveProvider =
  provider_id :: string
  progressiveRenderingEnabled :: bool
  provider_handle :: int
  provider_registration :: IInteractiveSessionProviderContribution

text \<open>
  The state the bridge reads and writes: its two maps (\<^verbatim>\<open>_registrations\<close> holds, per handle,
  the disposable of the provider installed in the service), the providers installed in the
  interactive session service, the calls issued to the remote side so far, and the progress
  callbacks invoked so far, each with its payload. \<^verbatim>\<open>_inputRegistrations\<close> is never written.
\<close>

record MainThreadInteractiveSession =
  registrations :: "int \<rightharpoonup> IInteractiveProvider"
  activeRequestProgressCallbacks :: "string \<rightharpoonup> progress_callback"
  serviceProviders :: "IInteractiveProvider list"
  remoteCalls :: "remote_call list"
  progressDelivered :: "(progress_callback \<times> IInteractiveProgress) list"

record IInteractiveSession =
  session_id :: int
  requesterUsername :: string
  requesterAvatarIconUri :: "URI option"
  responderUsername :: string
  responderAvatarIconUri :: "URI option"
  dispose :: "MainThreadInteractiveSession \<Rightarrow> MainThreadInteractiveSession"

record IInteractiveRequest =
  session :: IInteractiveSession
  message :: string

record IInteractiveResponse =
  response_session :: IInteractiveSession
  followups :: "string list option"

definition initial :: MainThreadInteractiveSession where
  "initial = \<lparr>registrations = Map.empty, activeRequestProgressCallbacks = Map.empty,
     serviceProviders = [], remoteCalls = [], progressDelivered = []\<rparr>"

subsection \<open>Operations\<close>

text \<open>
  Modelled from the spec: \<^verbatim>\<open>IInteractiveSessionService.registerProvider\<close> and
  \<^verbatim>\<open>DisposableMap\<close> are declared or imported but their bodies are not among the source
  files. By the spec, registration "installs a provider object" and "stores the resulting
  unregistration handle keyed by handle"; unregistration "disposes and removes the
  registration; idempotent if already removed".
\<close>

definition registerProvider ::
  "IInteractiveProvider \<Rightarrow> MainThreadInteractiveSession \<Rightarrow> MainThreadInteractiveSession" where
  "registerProvider provider st = st\<lparr>serviceProviders := serviceProviders st @ [provider]\<rparr>"

definition disposeRegistration ::
  "IInteractiveProvider \<Rightarrow> MainThreadInteractiveSession \<Rightarrow> MainThreadInteractiveSession" where
  "disposeRegistration provider st = st\<lparr>serviceProviders := remove1 provider (serviceProviders st)\<rparr>"

text \<open>\<^verbatim>\<open>$registerInteractiveSessionProvider\<close>: the thrown error is the left summand, and the
  state is returned in both cases.\<close>

definition registerInteractiveSessionProvider ::
  "IInteractiveSessionProviderContribution list \<Rightarrow> int \<Rightarrow> string \<Rightarrow> bool
    \<Rightarrow> MainThreadInteractiveSession \<Rightarrow> (error + unit) \<times> MainThreadInteractiveSession" where
  "registerInteractiveSessionProvider registeredProviders handle pid implementsProgress st =
     (case find (\<lambda>staticProvider. contribution_id staticProvider = pid) registeredProviders of
        None \<Rightarrow> (Inl (Error (''Provider '' @ pid @ '' must be declared in the package.json.'')), st)
      | Some registration \<Rightarrow>
          (let provider = \<lparr>provider_id = pid, progressiveRenderingEnabled = implementsProgress,
                 provider_handle = handle, provider_registration = registration\<rparr>;
               st1 = registerProvider provider st
           in (Inr (), st1\<lparr>registrations := (registrations st1)(handle \<mapsto> provider)\<rparr>)))"

definition unregisterInteractiveSessionProvider ::
  "int \<Rightarrow> MainThreadInteractiveSession \<Rightarrow> MainThreadInteractiveSession" where
  "unregisterInteractiveSessionProvider handle st =
     (case registrations st handle of
        None \<Rightarrow> st
      | Some unreg \<Rightarrow> (disposeRegistration unreg st)\<lparr>registrations := (registrations st)(handle := None)\<rparr>)"

text \<open>
  \<^verbatim>\<open>prepareSession\<close> awaits the remote side. Up to the \<^verbatim>\<open>await\<close> it issues the remote call;
  what follows the \<^verbatim>\<open>await\<close> is a function of the remote answer: a rejection (left summand),
  nothing, or a session.
\<close>

definition prepareSession_call ::
  "int \<Rightarrow> MainThreadInteractiveSession \<Rightarrow> MainThreadInteractiveSession" where
  "prepareSession_call handle st = st\<lparr>remoteCalls := remoteCalls st @ [PrepareInteractiveSession handle]\<rparr>"

definition releaseSession :: "int \<Rightarrow> MainThreadInteractiveSession \<Rightarrow> MainThreadInteractiveSession" where
  "releaseSession sid st = st\<lparr>remoteCalls := remoteCalls st @ [ReleaseSession sid]\<rparr>"

definition prepareSession_settled ::
  "IInteractiveSessionProviderContribution \<Rightarrow> error + IInteractiveSessionDto option
    \<Rightarrow> error + IInteractiveSession option" where
  "prepareSession_settled registration answer =
     (case answer of
        Inl e \<Rightarrow> Inl e
      | Inr None \<Rightarrow> Inr None
      | Inr (Some dto) \<Rightarrow>
          Inr (Some \<lparr>session_id = dto_id dto,
            requesterUsername = (case dto_requesterUsername dto of None \<Rightarrow> ''Username'' | Some u \<Rightarrow> u),
            requesterAvatarIconUri = dto_requesterAvatarIconUri dto,
            responderUsername = (case dto_responderUsername dto of None \<Rightarrow> ''Response'' | Some u \<Rightarrow> u),
            responderAvatarIconUri =
              (case dto_responderAvatarIconUri dto of None \<Rightarrow> extensionIcon registration
               | Some uri \<Rightarrow> Some uri),
            dispose = releaseSession (dto_id dto)\<rparr>))"

text \<open>
  \<^verbatim>\<open>provideReply\<close>: up to the \<^verbatim>\<open>await\<close> it stores the callback under the composite key and
  issues the remote call; when the remote call settles, the \<^verbatim>\<open>finally\<close> block deletes the
  key, and the call resolves with the response or rejects with the remote error.
\<close>

definition provideReply_call ::
  "int \<Rightarrow> IInteractiveRequest \<Rightarrow> progress_callback
    \<Rightarrow> MainThreadInteractiveSession \<Rightarrow> MainThreadInteractiveSession" where
  "provideReply_call handle request progress st =
     st\<lparr>activeRequestProgressCallbacks :=
          (activeRequestProgressCallbacks st)(requestKey handle (session_id (session request)) \<mapsto> progress),
        remoteCalls := remoteCalls st
          @ [ProvideInteractiveReply handle (session_id (session request)) (message request)]\<rparr>"

definition provideReply_settled ::
  "int \<Rightarrow> IInteractiveRequest \<Rightarrow> error + IInteractiveResponseDto
    \<Rightarrow> MainThreadInteractiveSession \<Rightarrow> (error + IInteractiveResponse) \<times> MainThreadInteractiveSession" where
  "provideReply_settled handle request answer st =
     ((case answer of
         Inl e \<Rightarrow> Inl e
       | Inr dto \<Rightarrow> Inr \<lparr>response_session = session request, followups = dto_followups dto\<rparr>),
      st\<lparr>activeRequestProgressCallbacks :=
          (activeRequestProgressCallbacks st)(requestKey handle (session_id (session request)) := None)\<rparr>)"

text \<open>\<^verbatim>\<open>$acceptInteractiveResponseProgress\<close>: the callback stored under the key, if any, is
  called with the payload; an error the callback throws passes through.\<close>

definition acceptInteractiveResponseProgress ::
  "int \<Rightarrow> int \<Rightarrow> IInteractiveProgress
    \<Rightarrow> MainThreadInteractiveSession \<Rightarrow> (error + unit) \<times> MainThreadInteractiveSession" where
  "acceptInteractiveResponseProgress handle sessionId progress st =
     (case activeRequestProgressCallbacks st (requestKey handle sessionId) of
        None \<Rightarrow> (Inr (), st)
      | Some callback \<Rightarrow>
          ((case callback_outcome callback progress of None \<Rightarrow> Inr () | Some e \<Rightarrow> Inl e),
           st\<lparr>progressDelivered := progressDelivered st @ [(callback, progress)]\<rparr>))"

subsection \<open>Runs of the bridge\<close>

text \<open>
  The bridge is driven by the remote side (registration, unregistration, progress) and by the
  interactive session service, which calls \<^verbatim>\<open>provideReply\<close> on an installed provider; the
  remote call of a \<^verbatim>\<open>provideReply\<close> settles later, and other events may come in between.
  The operations that write neither map nor call a progress callback (\<^verbatim>\<open>prepareSession\<close>,
  the delegating calls, and \<^verbatim>\<open>dispose\<close>, which empties the registrations only) are not
  events of a run.
\<close>

datatype event =
    RegisterProvider int string bool
  | UnregisterProvider int
  | ProvideReply int IInteractiveRequest progress_callback
  | ReplySettled int IInteractiveRequest progress_callback "error + IInteractiveResponseDto"
  | AcceptProgress int int IInteractiveProgress

fun step :: "IInteractiveSessionProviderContribution list \<Rightarrow> event
    \<Rightarrow> MainThreadInteractiveSession \<Rightarrow> MainThreadInteractiveSession" where
  "step ps (RegisterProvider handle pid implementsProgress) st =
     snd (registerInteractiveSessionProvider ps handle pid implementsProgress st)"
| "step ps (UnregisterProvider handle) st = unregisterInteractiveSessionProvider handle st"
| "step ps (ProvideReply handle request progress) st = provideReply_call handle request progress st"
| "step ps (ReplySettled handle request progress answer) st =
     snd (provideReply_settled handle request answer st)"
| "step ps (AcceptProgress handle sessionId progress) st =
     snd (acceptInteractiveResponseProgress handle sessionId progress st)"

definition run :: "IInteractiveSessionProviderContribution list \<Rightarrow> event list
    \<Rightarrow> MainThreadInteractiveSession \<Rightarrow> MainThreadInteractiveSession" where
  "run ps evs st = foldl (\<lambda>s ev. step ps ev s) st evs"

text \<open>
  The \<^verbatim>\<open>provideReply\<close> calls in flight after a run: those that have stored their callback and
  whose remote call has not settled, each with its handle, session id and callback. In a
  well-formed run only a call in flight settles.
\<close>

type_synonym reply_call = "int \<times> int \<times> progress_callback"

fun track :: "event \<Rightarrow> reply_call list \<Rightarrow> reply_call list" where
  "track (ProvideReply handle request progress) cs =
     (handle, session_id (session request), progress) # cs"
| "track (ReplySettled handle request progress answer) cs =
     remove1 (handle, session_id (session request), progress) cs"
| "track (RegisterProvider handle pid implementsProgress) cs = cs"
| "track (UnregisterProvider handle) cs = cs"
| "track (AcceptProgress handle sessionId progress) cs = cs"

fun settles_in_flight :: "event \<Rightarrow> reply_call list \<Rightarrow> bool" where
  "settles_in_flight (ReplySettled handle request progress answer) cs =
     ((handle, session_id (session request), progress) \<in> set cs)"
| "settles_in_flight (ProvideReply handle request progress) cs = True"
| "settles_in_flight (RegisterProvider handle pid implementsProgress) cs = True"
| "settles_in_flight (UnregisterProvider handle) cs = True"
| "settles_in_flight (AcceptProgress handle sessionId progress) cs = True"

definition inFlight :: "event list \<Rightarrow> reply_call list" where
  "inFlight evs = foldl (\<lambda>cs ev. track ev cs) [] evs"

fun wellformed_from :: "reply_call list \<Rightarrow> event list \<Rightarrow> bool" where
  "wellformed_from cs [] = True"
| "wellformed_from cs (ev # evs) = (settles_in_flight ev cs \<and> wellformed_from (track ev cs) evs)"

definition wellformed :: "event list \<Rightarrow> bool" where
  "wellformed evs = wellformed_from [] evs"

definition inFlightPairs :: "event list \<Rightarrow> (int \<times> int) list" where
  "inFlightPairs evs = map (\<lambda>(handle, sessionId, progress). (handle, sessionId)) (inFlight evs)"

text \<open>An event is a \<^verbatim>\<open>provideReply\<close> call of the pair, or the settling of one.\<close>

fun replies_for :: "int \<Rightarrow> int \<Rightarrow> event \<Rightarrow> bool" where
  "replies_for h s (ProvideReply handle request progress) =
     (handle = h \<and> session_id (session request) = s)"
| "replies_for h s (ReplySettled handle request progress answer) =
     (handle = h \<and> session_id (session request) = s)"
| "replies_for h s (RegisterProvider handle pid implementsProgress) = False"
| "replies_for h s (UnregisterProvider handle) = False"
| "replies_for h s (AcceptProgress handle sessionId progress) = False"

subsection \<open>Example data\<close>

definition example_contributions :: "IInteractiveSessionProviderContribution list" where
  "example_contributions = [\<lparr>contribution_id = ''p1'', extensionIcon = Some ''icon.png''\<rparr>]"

definition example_session :: "int \<Rightarrow> IInteractiveSession" where
  "example_session sid = \<lparr>session_id = sid, requesterUsername = ''Username'',
     requesterAvatarIconUri = None, responderUsername = ''Response'',
     responderAvatarIconUri = None, dispose = releaseSession sid\<rparr>"

definition example_request :: "int \<Rightarrow> IInteractiveRequest" where
  "example_request sid = \<lparr>session = example_session sid, message = ''hello''\<rparr>"

definition example_callback :: "nat \<Rightarrow> progress_callback" where
  "example_callback n = \<lparr>callback_id = n, callback_outcome = (\<lambda>p. None)\<rparr>"

definition example_progress :: IInteractiveProgress where
  "example_progress = \<lparr>responsePart = ''hi''\<rparr>"

definition overlapping_replies :: "event list" where
  "overlapping_replies =
     [RegisterProvider 2 ''p1'' True,
      ProvideReply 2 (example_request 7) (example_callback 0),
      ProvideReply 2 (example_request 7) (example_callback 1)]"

definition settled_run :: "event list" where
  "settled_run =
     [RegisterProvider 1 ''p1'' True,
      ProvideReply 1 (example_request 42) (example_callback 0),
      AcceptProgress 1 42 example_progress,
      ReplySettled 1 (example_request 42) (example_callback 0) (Inr \<lparr>dto_followups = None\<rparr>),
      UnregisterProvider 1]"

definition example_dto :: IInteractiveSessionDto where
  "example_dto = \<lparr>dto_id = 7, dto_requesterUsername = None, dto_requesterAvatarIconUri = None,
     dto_responderUsername = Some ''Bot'', dto_responderAvatarIconUri = None\<rparr>"

section \<open>Hover controller (hover.ts)\<close>

subsection \<open>Mouse events\<close>

text \<open>The kinds of editor element a mouse event can hit (\<^verbatim>\<open>MouseTargetType\<close>).\<close>

datatype MouseTargetType =
    UNKNOWN | TEXTAREA | GUTTER_GLYPH_MARGIN | GUTTER_LINE_NUMBERS | GUTTER_LINE_DECORATIONS
  | GUTTER_VIEW_ZONE | CONTENT_TEXT | CONTENT_EMPTY | CONTENT_VIEW_ZONE | CONTENT_WIDGET
  | OVERVIEW_RULER | SCROLLBAR | OVERLAY_WIDGET | OUTSIDE_EDITOR

text \<open>
  For a widget target, \<^verbatim>\<open>target.detail\<close> is the id of the widget. The controller compares it
  with \<^verbatim>\<open>ContentHoverWidget.ID\<close> and \<^verbatim>\<open>MarginHoverWidget.ID\<close>, two constants whose text is
  not among the source files; any other widget id is a string.
\<close>

datatype widget_id = ContentHoverWidget_ID | MarginHoverWidget_ID | Other_ID string

text \<open>
  What the controller reads of a mouse event: the target, whether the browser selection is
  collapsed (\<^verbatim>\<open>event.browserEvent.view?.getSelection()?.isCollapsed\<close>, \<open>None\<close> when the view
  or the selection is missing), and whether the position is hoverable, that is, whether the
  content widget accepts to show there.
\<close>

record IEditorMouseEvent =
  target_type :: MouseTargetType
  target_detail :: "widget_id option"
  target_position :: "(nat \<times> nat) option"
  selection_isCollapsed :: "bool option"
  hoverable :: bool

datatype HoverStartSource = Mouse | Keyboard

subsection \<open>The two widgets\<close>

text \<open>
  Modelled from the spec: \<^verbatim>\<open>ContentHoverController\<close> and \<^verbatim>\<open>MarginHoverWidget\<close> are
  imported by hover.ts and their bodies are not among the source files. The spec tracks
  "whether content widget is visible, whether it was shown via keyboard vs mouse" and treats
  the color picker as a sub-widget of the hover with a visibility flag of its own; hiding a
  widget makes it invisible; the content widget is asked "to evaluate showing at that
  position" and accepts at a hoverable position; the glyph widget "starts showing at that
  line".
\<close>

record ContentHoverController =
  isVisible :: bool
  isVisibleFromKeyboard :: bool
  isColorPickerVisible :: bool

record MarginHoverWidget =
  margin_isVisible :: bool
  margin_lineNumber :: nat

definition new_ContentHoverController :: ContentHoverController where
  "new_ContentHoverController =
     \<lparr>isVisible = False, isVisibleFromKeyboard = False, isColorPickerVisible = False\<rparr>"

definition new_MarginHoverWidget :: MarginHoverWidget where
  "new_MarginHoverWidget = \<lparr>margin_isVisible = False, margin_lineNumber = 0\<rparr>"

definition content_hide :: "ContentHoverController \<Rightarrow> ContentHoverController" where
  "content_hide w = w\<lparr>isVisible := False, isVisibleFromKeyboard := False, isColorPickerVisible := False\<rparr>"

definition margin_hide :: "MarginHoverWidget \<Rightarrow> MarginHoverWidget" where
  "margin_hide w = w\<lparr>margin_isVisible := False\<rparr>"

definition maybeShowAt :: "IEditorMouseEvent \<Rightarrow> ContentHoverController \<Rightarrow> bool \<times> ContentHoverController" where
  "maybeShowAt mouseEvent w =
     (if hoverable mouseEvent then (True, w\<lparr>isVisible := True, isVisibleFromKeyboard := False\<rparr>)
      else (False, w))"

definition startShowingAtRange :: "HoverStartSource \<Rightarrow> ContentHoverController \<Rightarrow> ContentHoverController" where
  "startShowingAtRange source w = w\<lparr>isVisible := True, isVisibleFromKeyboard := (source = Keyboard)\<rparr>"

definition startShowingAt :: "nat \<Rightarrow> MarginHoverWidget \<Rightarrow> MarginHoverWidget" where
  "startShowingAt lineNumber w = w\<lparr>margin_isVisible := True, margin_lineNumber := lineNumber\<rparr>"

subsection \<open>The controller\<close>

text \<open>
  The fields of \<^verbatim>\<open>ModesHoverController\<close>; a widget that has not been created is \<open>None\<close>.
  \<open>dropDownVisible\<close> is the static flag \<^verbatim>\<open>InlineSuggestionHintsContentWidget.dropDownVisible\<close>,
  which belongs to another widget and which the controller only reads.
\<close>

record ModesHoverController =
  contentWidget :: "ContentHoverController option"
  glyphWidget :: "MarginHoverWidget option"
  isMouseDown :: bool
  hoverClicked :: bool
  isHoverEnabled :: bool
  isHoverSticky :: bool
  dropDownVisible :: bool

text \<open>\<^verbatim>\<open>widget?.flag()\<close> in a condition: false when the widget does not exist.\<close>

definition optional :: "('w \<Rightarrow> bool) \<Rightarrow> 'w option \<Rightarrow> bool" where
  "optional flag w = (case w of None \<Rightarrow> False | Some x \<Rightarrow> flag x)"

definition new_ModesHoverController :: "bool \<Rightarrow> bool \<Rightarrow> ModesHoverController" where
  "new_ModesHoverController enabled sticky =
     \<lparr>contentWidget = None, glyphWidget = None, isMouseDown = False, hoverClicked = False,
      isHoverEnabled = enabled, isHoverSticky = sticky, dropDownVisible = False\<rparr>"

definition hideWidgets :: "ModesHoverController \<Rightarrow> ModesHoverController" where
  "hideWidgets st =
     (if (isMouseDown st \<and> hoverClicked st \<and> optional isColorPickerVisible (contentWidget st))
         \<or> dropDownVisible st
      then st
      else st\<lparr>hoverClicked := False,
              glyphWidget := map_option margin_hide (glyphWidget st),
              contentWidget := map_option content_hide (contentWidget st)\<rparr>)"

definition onEditorMouseDown :: "IEditorMouseEvent \<Rightarrow> ModesHoverController \<Rightarrow> ModesHoverController" where
  "onEditorMouseDown mouseEvent st =
     (let st1 = st\<lparr>isMouseDown := True\<rparr> in
      if target_type mouseEvent = CONTENT_WIDGET \<and> target_detail mouseEvent = Some ContentHoverWidget_ID
      then st1\<lparr>hoverClicked := True\<rparr>
      else if target_type mouseEvent = OVERLAY_WIDGET \<and> target_detail mouseEvent = Some MarginHoverWidget_ID
      then st1
      else hideWidgets (if target_type mouseEvent \<noteq> OVERLAY_WIDGET then st1\<lparr>hoverClicked := False\<rparr> else st1))"

definition onEditorMouseUp :: "ModesHoverController \<Rightarrow> ModesHoverController" where
  "onEditorMouseUp st = st\<lparr>isMouseDown := False\<rparr>"

definition getOrCreateContentWidget ::
  "ModesHoverController \<Rightarrow> ContentHoverController \<times> ModesHoverController" where
  "getOrCreateContentWidget st =
     (case contentWidget st of
        None \<Rightarrow> (new_ContentHoverController, st\<lparr>contentWidget := Some new_ContentHoverController\<rparr>)
      | Some w \<Rightarrow> (w, st))"

definition onEditorMouseMove :: "IEditorMouseEvent \<Rightarrow> ModesHoverController \<Rightarrow> ModesHoverController" where
  "onEditorMouseMove mouseEvent st =
     (if isMouseDown st \<and> hoverClicked st then st
      else if isHoverSticky st \<and> target_type mouseEvent = CONTENT_WIDGET
          \<and> target_detail mouseEvent = Some ContentHoverWidget_ID then st
      else if isHoverSticky st \<and> selection_isCollapsed mouseEvent \<noteq> Some True then st
      else if \<not> isHoverSticky st \<and> target_type mouseEvent = CONTENT_WIDGET
          \<and> target_detail mouseEvent = Some ContentHoverWidget_ID
          \<and> optional isColorPickerVisible (contentWidget st) then st
      else if isHoverSticky st \<and> target_type mouseEvent = OVERLAY_WIDGET
          \<and> target_detail mouseEvent = Some MarginHoverWidget_ID then st
      else if isHoverSticky st \<and> optional isVisibleFromKeyboard (contentWidget st) then st
      else if \<not> isHoverEnabled st then hideWidgets st
      else
        (case getOrCreateContentWidget st of (w, st1) \<Rightarrow>
           (case maybeShowAt mouseEvent w of (accepted, w') \<Rightarrow>
              (let st2 = st1\<lparr>contentWidget := Some w'\<rparr> in
               if accepted then st2\<lparr>glyphWidget := map_option margin_hide (glyphWidget st2)\<rparr>
               else
                 (case target_position mouseEvent of
                    Some (lineNumber, column) \<Rightarrow>
                      if target_type mouseEvent = GUTTER_GLYPH_MARGIN
                      then st2\<lparr>contentWidget := map_option content_hide (contentWidget st2),
                               glyphWidget := Some (startShowingAt lineNumber
                                 (case glyphWidget st2 of None \<Rightarrow> new_MarginHoverWidget | Some g \<Rightarrow> g))\<rparr>
                      else hideWidgets st2
                  | None \<Rightarrow> hideWidgets st2)))))"

definition showContentHover :: "HoverStartSource \<Rightarrow> ModesHoverController \<Rightarrow> ModesHoverController" where
  "showContentHover source st =
     (case getOrCreateContentWidget st of (w, st1) \<Rightarrow>
        st1\<lparr>contentWidget := Some (startShowingAtRange source w)\<rparr>)"

subsection \<open>Runs of the controller\<close>

text \<open>
  The events that drive the controller. Mouse-down and mouse-up are hooked only while hover
  is enabled. \<open>Hide\<close> stands for the handlers that only call \<^verbatim>\<open>_hideWidgets\<close> (model change,
  scroll change, mouse leave outside the content widget, a plain key). Two events are not the
  controller's own: \<open>DropDown\<close> is the other widget opening or closing its dropdown, and
  \<open>ColorPicker\<close> is the content widget opening or closing a color picker in the hover it
  shows.
\<close>

datatype hover_event =
    MouseDown IEditorMouseEvent
  | MouseUp
  | MouseMove IEditorMouseEvent
  | ShowContentHover HoverStartSource
  | Hide
  | DropDown bool
  | ColorPicker bool

fun hover_step :: "hover_event \<Rightarrow> ModesHoverController \<Rightarrow> ModesHoverController" where
  "hover_step (MouseDown mouseEvent) st = (if isHoverEnabled st then onEditorMouseDown mouseEvent st else st)"
| "hover_step MouseUp st = (if isHoverEnabled st then onEditorMouseUp st else st)"
| "hover_step (MouseMove mouseEvent) st = onEditorMouseMove mouseEvent st"
| "hover_step (ShowContentHover source) st = showContentHover source st"
| "hover_step Hide st = hideWidgets st"
| "hover_step (DropDown visible) st = st\<lparr>dropDownVisible := visible\<rparr>"
| "hover_step (ColorPicker visible) st =
     st\<lparr>contentWidget :=
          map_option (\<lambda>w. w\<lparr>isColorPickerVisible := (visible \<and> isVisible w)\<rparr>) (contentWidget st)\<rparr>"

definition hover_run :: "hover_event list \<Rightarrow> ModesHoverController \<Rightarrow> ModesHoverController" where
  "hover_run evs st = foldl (\<lambda>s ev. hover_step ev s) st evs"

text \<open>Mouse events used in the examples.\<close>

definition mouse_at :: "MouseTargetType \<Rightarrow> IEditorMouseEvent" where
  "mouse_at t = \<lparr>target_type = t, target_detail = None, target_position = None,
     selection_isCollapsed = Some True, hoverable = False\<rparr>"

definition mouse_on_content_hover :: IEditorMouseEvent where
  "mouse_on_content_hover = (mouse_at CONTENT_WIDGET)\<lparr>target_detail := Some ContentHoverWidget_ID\<rparr>"

definition mouse_on_glyph :: "nat \<Rightarrow> IEditorMouseEvent" where
  "mouse_on_glyph lineNumber = (mouse_at GUTTER_GLYPH_MARGIN)\<lparr>target_position := Some (lineNumber, 1)\<rparr>"

definition mouse_on_code :: IEditorMouseEvent where
  "mouse_on_code = (mouse_at CONTENT_TEXT)\<lparr>target_position := Some (3, 5), hoverable := True\<rparr>"

definition glyph_then_dropdown :: "hover_event list" where
  "glyph_then_dropdown = [MouseMove (mouse_on_glyph 4), DropDown True]"

text \<open>The state after the hover on a color has opened its color picker and the user has
  clicked inside the hover.\<close>

definition click_in_color_picker :: "hover_event list" where
  "click_in_color_picker =
     [MouseMove mouse_on_code, ColorPicker True, MouseDown mouse_on_content_hover, MouseUp]"

definition clicked_color_picker :: ModesHoverController where
  "clicked_color_picker =
     \<lparr>contentWidget = Some \<lparr>isVisible = True, isVisibleFromKeyboard = False, isColorPickerVisible = True\<rparr>,
      glyphWidget = None, isMouseDown = False, hoverClicked = True,
      isHoverEnabled = True, isHoverSticky = False, dropDownVisible = False\<rparr>"

section \<open>Properties of the screencast overlay settings\<close>

lemma clamp_bounds: "lo \<le> hi \<Longrightarrow> lo \<le> clamp v lo hi \<and> clamp v lo hi \<le> hi"
  by (simp add: clamp_def)

lemma clamp_inside: "lo \<le> v \<Longrightarrow> v \<le> hi \<Longrightarrow> clamp v lo hi = v"
  by (simp add: clamp_def)

lemma clamp_below: "v < lo \<Longrightarrow> lo \<le> hi \<Longrightarrow> clamp v lo hi = lo"
  by (simp add: clamp_def)

lemma clamp_above: "hi < v \<Longrightarrow> clamp v lo hi = hi"
  by (simp add: clamp_def)

lemma or_number_simps:
  "or_number None d = d" "or_number (Some 0) d = d" "x \<noteq> 0 \<Longrightarrow> or_number (Some x) d = x"
  by (simp_all add: or_number_def)

text \<open>
  C9, as the claim states it, fails: a configured font size of 0 and a configured keyboard
  overlay timeout of 0 are not clamped into their ranges, which would give the lower bounds
  20 and 500; 0 is falsy, so the fallbacks 56 and 800 are taken instead.
\<close>

theorem screencast_zero_is_not_clamped:
  "updateKeyboardFontSize (Some 0) = 56 \<and> clamp 0 20 100 = 20
   \<and> updateKeyboardFontSize (Some 0) \<noteq> clamp 0 20 100
   \<and> updateKeyboardMarkerTimeout (Some 0) = 800 \<and> clamp 0 500 5000 = 500
   \<and> updateKeyboardMarkerTimeout (Some 0) \<noteq> clamp 0 500 5000"
  by (simp add: updateKeyboardFontSize_def updateKeyboardMarkerTimeout_def or_number_def clamp_def)

text \<open>
  C9, amended. For every value read from the configuration, each of the four settings lies
  in its range: \<open>[20, 100]\<close> for the mouse indicator size and for the font size, \<open>[0, 90]\<close>
  for the vertical offset, \<open>[500, 5000]\<close> for the keyboard overlay timeout. A value that is
  absent or 0 is replaced by the fallback of the setting (20, 56, 0 and 800); every other
  value is clamped: below the range it becomes the lower bound, above the range the upper
  bound, and inside the range it is used as it is.
\<close>

theorem screencast_settings_defaulted_and_clamped:
  "20 \<le> updateMouseIndicatorSize v \<and> updateMouseIndicatorSize v \<le> 100
   \<and> updateMouseIndicatorSize None = 20 \<and> updateMouseIndicatorSize (Some 0) = 20
   \<and> (x \<noteq> 0 \<and> x < 20 \<longrightarrow> updateMouseIndicatorSize (Some x) = 20)
   \<and> (20 \<le> x \<and> x \<le> 100 \<longrightarrow> updateMouseIndicatorSize (Some x) = x)
   \<and> (100 < x \<longrightarrow> updateMouseIndicatorSize (Some x) = 100)
   \<and> 20 \<le> updateKeyboardFontSize v \<and> updateKeyboardFontSize v \<le> 100
   \<and> updateKeyboardFontSize None = 56 \<and> updateKeyboardFontSize (Some 0) = 56
   \<and> (x \<noteq> 0 \<and> x < 20 \<longrightarrow> updateKeyboardFontSize (Some x) = 20)
   \<and> (20 \<le> x \<and> x \<le> 100 \<longrightarrow> updateKeyboardFontSize (Some x) = x)
   \<and> (100 < x \<longrightarrow> updateKeyboardFontSize (Some x) = 100)
   \<and> 0 \<le> updateKeyboardMarker v \<and> updateKeyboardMarker v \<le> 90
   \<and> updateKeyboardMarker None = 0 \<and> updateKeyboardMarker (Some 0) = 0
   \<and> (x < 0 \<longrightarrow> updateKeyboardMarker (Some x) = 0)
   \<and> (0 \<le> x \<and> x \<le> 90 \<longrightarrow> updateKeyboardMarker (Some x) = x)
   \<and> (90 < x \<longrightarrow> updateKeyboardMarker (Some x) = 90)
   \<and> 500 \<le> updateKeyboardMarkerTimeout v \<and> updateKeyboardMarkerTimeout v \<le> 5000
   \<and> updateKeyboardMarkerTimeout None = 800 \<and> updateKeyboardMarkerTimeout (Some 0) = 800
   \<and> (x \<noteq> 0 \<and> x < 500 \<longrightarrow> updateKeyboardMarkerTimeout (Some x) = 500)
   \<and> (500 \<le> x \<and> x \<le> 5000 \<longrightarrow> updateKeyboardMarkerTimeout (Some x) = x)
   \<and> (5000 < x \<longrightarrow> updateKeyboardMarkerTimeout (Some x) = 5000)"
proof -
  have size: "20 \<le> updateMouseIndicatorSize v \<and> updateMouseIndicatorSize v \<le> 100"
    unfolding updateMouseIndicatorSize_def by (rule clamp_bounds) simp
  have font: "20 \<le> updateKeyboardFontSize v \<and> updateKeyboardFontSize v \<le> 100"
    unfolding updateKeyboardFontSize_def by (rule clamp_bounds) simp
  have offset: "0 \<le> updateKeyboardMarker v \<and> updateKeyboardMarker v \<le> 90"
    unfolding updateKeyboardMarker_def by (rule clamp_bounds) simp
  have timeout: "500 \<le> updateKeyboardMarkerTimeout v \<and> updateKeyboardMarkerTimeout v \<le> 5000"
    unfolding updateKeyboardMarkerTimeout_def by (rule clamp_bounds) simp
  have fallbacks: "updateMouseIndicatorSize None = 20" "updateMouseIndicatorSize (Some 0) = 20"
      "updateKeyboardFontSize None = 56" "updateKeyboardFontSize (Some 0) = 56"
      "updateKeyboardMarker None = 0" "updateKeyboardMarker (Some 0) = 0"
      "updateKeyboardMarkerTimeout None = 800" "updateKeyboardMarkerTimeout (Some 0) = 800"
    by (simp_all add: updateMouseIndicatorSize_def updateKeyboardFontSize_def
        updateKeyboardMarker_def updateKeyboardMarkerTimeout_def or_number_simps clamp_def)
  have below: "x \<noteq> 0 \<and> x < 20 \<longrightarrow> updateMouseIndicatorSize (Some x) = 20"
      "x \<noteq> 0 \<and> x < 20 \<longrightarrow> updateKeyboardFontSize (Some x) = 20"
      "x < 0 \<longrightarrow> updateKeyboardMarker (Some x) = 0"
      "x \<noteq> 0 \<and> x < 500 \<longrightarrow> updateKeyboardMarkerTimeout (Some x) = 500"
    by (simp_all add: updateMouseIndicatorSize_def updateKeyboardFontSize_def
        updateKeyboardMarker_def updateKeyboardMarkerTimeout_def or_number_simps clamp_below)
  have inside: "20 \<le> x \<and> x \<le> 100 \<longrightarrow> updateMouseIndicatorSize (Some x) = x"
      "20 \<le> x \<and> x \<le> 100 \<longrightarrow> updateKeyboardFontSize (Some x) = x"
      "0 \<le> x \<and> x \<le> 90 \<longrightarrow> updateKeyboardMarker (Some x) = x"
      "500 \<le> x \<and> x \<le> 5000 \<longrightarrow> updateKeyboardMarkerTimeout (Some x) = x"
    by (auto simp add: updateMouseIndicatorSize_def updateKeyboardFontSize_def
        updateKeyboardMarker_def updateKeyboardMarkerTimeout_def or_number_def clamp_inside)
  have above: "100 < x \<longrightarrow> updateMouseIndicatorSize (Some x) = 100"
      "100 < x \<longrightarrow> updateKeyboardFontSize (Some x) = 100"
      "90 < x \<longrightarrow> updateKeyboardMarker (Some x) = 90"
      "5000 < x \<longrightarrow> updateKeyboardMarkerTimeout (Some x) = 5000"
    by (simp_all add: updateMouseIndicatorSize_def updateKeyboardFontSize_def
        updateKeyboardMarker_def updateKeyboardMarkerTimeout_def or_number_simps clamp_above)
  from size font offset timeout fallbacks below inside above show ?thesis by simp
qed

text \<open>The theorem at 5 and at \<open>- 5\<close> (below the ranges), at 60 and at 600 (inside), and at
  7000 (above every range).\<close>

theorem screencast_settings_witness:
  "(5::real) \<noteq> 0 \<and> (5::real) < 20
   \<and> updateMouseIndicatorSize (Some 5) = 20 \<and> updateKeyboardFontSize (Some 5) = 20
   \<and> updateKeyboardMarkerTimeout (Some 5) = 500
   \<and> (- 5::real) < 0 \<and> updateKeyboardMarker (Some (- 5)) = 0
   \<and> (20::real) \<le> 60 \<and> (60::real) \<le> 90
   \<and> updateMouseIndicatorSize (Some 60) = 60 \<and> updateKeyboardFontSize (Some 60) = 60
   \<and> updateKeyboardMarker (Some 60) = 60
   \<and> (500::real) \<le> 600 \<and> (600::real) \<le> 5000 \<and> updateKeyboardMarkerTimeout (Some 600) = 600
   \<and> (5000::real) < 7000
   \<and> updateMouseIndicatorSize (Some 7000) = 100 \<and> updateKeyboardFontSize (Some 7000) = 100
   \<and> updateKeyboardMarker (Some 7000) = 90 \<and> updateKeyboardMarkerTimeout (Some 7000) = 5000"
proof -
  have a: "updateMouseIndicatorSize (Some 5) = 20 \<and> updateKeyboardFontSize (Some 5) = 20
      \<and> updateKeyboardMarkerTimeout (Some 5) = 500"
    using screencast_settings_defaulted_and_clamped [of "Some 5" 5] by simp
  have b: "updateKeyboardMarker (Some (- 5)) = 0"
    using screencast_settings_defaulted_and_clamped [of "Some (- 5)" "- 5"] by simp
  have c: "updateMouseIndicatorSize (Some 60) = 60 \<and> updateKeyboardFontSize (Some 60) = 60
      \<and> updateKeyboardMarker (Some 60) = 60"
    using screencast_settings_defaulted_and_clamped [of "Some 60" 60] by simp
  have d: "updateKeyboardMarkerTimeout (Some 600) = 600"
    using screencast_settings_defaulted_and_clamped [of "Some 600" 600] by simp
  have e: "updateMouseIndicatorSize (Some 7000) = 100 \<and> updateKeyboardFontSize (Some 7000) = 100
      \<and> updateKeyboardMarker (Some 7000) = 90 \<and> updateKeyboardMarkerTimeout (Some 7000) = 5000"
    using screencast_settings_defaulted_and_clamped [of "Some 7000" 7000] by simp
  from a b c d e show ?thesis by simp
qed

section \<open>Properties of the interactive session bridge\<close>

subsection \<open>The composite key determines the pair\<close>

lemma digitChar_in: "d < 10 \<Longrightarrow> digitChar d \<in> set ''0123456789''"
  unfolding digitChar_def by (rule nth_mem) simp

lemma digitChar_inj: "d < 10 \<Longrightarrow> e < 10 \<Longrightarrow> digitChar d = digitChar e \<Longrightarrow> d = e"
proof -
  assume d: "d < 10" and e: "e < 10" and eq: "digitChar d = digitChar e"
  have dist: "distinct ''0123456789''" by simp
  have "d < length ''0123456789''" "e < length ''0123456789''" using d e by simp_all
  with dist eq show "d = e" unfolding digitChar_def by (simp only: nth_eq_iff_index_eq)
qed

lemma digits_not_Nil: "digits n \<noteq> []"
  by (subst digits.simps) simp

lemma digits_chars: "set (digits n) \<subseteq> set ''0123456789''"
proof (induction n rule: digits.induct)
  case (1 n)
  show ?case
  proof (cases "n < 10")
    case True
    then show ?thesis using digitChar_in [of n] by (subst digits.simps) simp
  next
    case False
    have "n mod 10 < 10" by simp
    then have "digitChar (n mod 10) \<in> set ''0123456789''" by (rule digitChar_in)
    with False 1 show ?thesis by (subst digits.simps) simp
  qed
qed

lemma digits_inj: "digits n = digits m \<Longrightarrow> n = m"
proof (induction n arbitrary: m rule: digits.induct)
  case (1 n)
  show ?case
  proof (cases "n < 10")
    case n: True
    show ?thesis
    proof (cases "m < 10")
      case True
      with n 1(2) show ?thesis
        by (simp add: digits.simps [of n] digits.simps [of m] digitChar_inj)
    next
      case False
      with n 1(2) show ?thesis
        by (simp add: digits.simps [of n] digits.simps [of m] digits_not_Nil digits_not_Nil [symmetric])
    qed
  next
    case n: False
    show ?thesis
    proof (cases "m < 10")
      case True
      with n 1(2) show ?thesis
        by (simp add: digits.simps [of n] digits.simps [of m] digits_not_Nil digits_not_Nil [symmetric])
    next
      case False
      with n 1(2) have eq: "digits (n div 10) = digits (m div 10)"
          and last: "digitChar (n mod 10) = digitChar (m mod 10)"
        by (simp_all add: digits.simps [of n] digits.simps [of m])
      from 1(1) [OF n eq] have d: "n div 10 = m div 10" .
      have "n mod 10 = m mod 10" using last by (intro digitChar_inj) simp_all
      with d show ?thesis by (metis div_mult_mod_eq)
    qed
  qed
qed

lemma digits_no_minus: "CHR ''-'' \<notin> set (digits n)"
proof
  assume "CHR ''-'' \<in> set (digits n)"
  with digits_chars [of n] have "CHR ''-'' \<in> set ''0123456789''" by (rule subsetD)
  then show False by simp
qed

lemma digits_no_underscore: "CHR ''_'' \<notin> set (digits n)"
proof
  assume "CHR ''_'' \<in> set (digits n)"
  with digits_chars [of n] have "CHR ''_'' \<in> set ''0123456789''" by (rule subsetD)
  then show False by simp
qed

lemma numberToString_no_underscore: "CHR ''_'' \<notin> set (numberToString i)"
  by (simp add: numberToString_def digits_no_underscore)

lemma digits_hd_not_minus: "digits n \<noteq> CHR ''-'' # cs"
proof
  assume "digits n = CHR ''-'' # cs"
  then have "CHR ''-'' \<in> set (digits n)" by simp
  with digits_no_minus [of n] show False by simp
qed

lemma numberToString_inj: "numberToString i = numberToString j \<Longrightarrow> i = j"
proof -
  assume eq: "numberToString i = numberToString j"
  show "i = j"
  proof (cases "i < 0")
    case i: True
    show ?thesis
    proof (cases "j < 0")
      case True
      with i eq have "digits (nat (- i)) = digits (nat (- j))" by (simp add: numberToString_def)
      then have "nat (- i) = nat (- j)" by (rule digits_inj)
      with i True show ?thesis by simp
    next
      case False
      with i eq have "digits (nat j) = CHR ''-'' # digits (nat (- i))" by (simp add: numberToString_def)
      then show ?thesis by (simp add: digits_hd_not_minus)
    qed
  next
    case i: False
    show ?thesis
    proof (cases "j < 0")
      case True
      with i eq have "digits (nat i) = CHR ''-'' # digits (nat (- j))" by (simp add: numberToString_def)
      then show ?thesis by (simp add: digits_hd_not_minus)
    next
      case False
      with i eq have "digits (nat i) = digits (nat j)" by (simp add: numberToString_def)
      then have "nat i = nat j" by (rule digits_inj)
      with i False show ?thesis by simp
    qed
  qed
qed

lemma split_at_separator:
  "c \<notin> set a \<Longrightarrow> c \<notin> set a' \<Longrightarrow> a @ c # b = a' @ c # b' \<Longrightarrow> a = a' \<and> b = b'"
proof (induction a arbitrary: a')
  case Nil
  then show ?case by (cases a') auto
next
  case (Cons x a)
  then show ?case by (cases a') auto
qed

lemma requestKey_inj: "requestKey h s = requestKey h' s' \<Longrightarrow> h = h' \<and> s = s'"
proof -
  assume "requestKey h s = requestKey h' s'"
  then have "numberToString h @ CHR ''_'' # numberToString s
      = numberToString h' @ CHR ''_'' # numberToString s'"
    by (simp add: requestKey_def)
  then have "numberToString h = numberToString h' \<and> numberToString s = numberToString s'"
    by (rule split_at_separator [OF numberToString_no_underscore numberToString_no_underscore])
  then show ?thesis by (simp add: numberToString_inj)
qed

subsection \<open>Runs and the callback map\<close>

lemma requestKey_eq_iff [simp]: "requestKey h s = requestKey h' s' \<longleftrightarrow> h = h' \<and> s = s'"
  using requestKey_inj by blast

lemma run_Nil [simp]: "run ps [] st = st"
  by (simp add: run_def)

lemma run_Cons [simp]: "run ps (ev # evs) st = run ps evs (step ps ev st)"
  by (simp add: run_def)

lemma run_append [simp]: "run ps (evs @ evs') st = run ps evs' (run ps evs st)"
  by (simp add: run_def)

lemma inFlight_Nil [simp]: "inFlight [] = []"
  by (simp add: inFlight_def)

lemma inFlight_snoc [simp]: "inFlight (evs @ [ev]) = track ev (inFlight evs)"
  by (simp add: inFlight_def)

lemma callbacks_register [simp]:
  "activeRequestProgressCallbacks (snd (registerInteractiveSessionProvider ps h pid ip st))
     = activeRequestProgressCallbacks st"
  by (simp add: registerInteractiveSessionProvider_def registerProvider_def Let_def split: option.split)

lemma callbacks_unregister [simp]:
  "activeRequestProgressCallbacks (unregisterInteractiveSessionProvider h st)
     = activeRequestProgressCallbacks st"
  by (simp add: unregisterInteractiveSessionProvider_def disposeRegistration_def split: option.split)

lemma callbacks_accept [simp]:
  "activeRequestProgressCallbacks (snd (acceptInteractiveResponseProgress h s p st))
     = activeRequestProgressCallbacks st"
  by (simp add: acceptInteractiveResponseProgress_def split: option.split)

lemma callbacks_call [simp]:
  "activeRequestProgressCallbacks (provideReply_call h request cb st)
     = (activeRequestProgressCallbacks st)(requestKey h (session_id (session request)) \<mapsto> cb)"
  by (simp add: provideReply_call_def)

lemma callbacks_settled [simp]:
  "activeRequestProgressCallbacks (snd (provideReply_settled h request answer st))
     = (activeRequestProgressCallbacks st)(requestKey h (session_id (session request)) := None)"
  by (simp add: provideReply_settled_def)

lemma callbacks_step_other:
  "\<not> replies_for h s ev \<Longrightarrow>
   activeRequestProgressCallbacks (step ps ev st) (requestKey h s)
     = activeRequestProgressCallbacks st (requestKey h s)"
  by (cases ev) auto

lemma callbacks_run_other:
  "\<forall>ev \<in> set evs. \<not> replies_for h s ev \<Longrightarrow>
   activeRequestProgressCallbacks (run ps evs st) (requestKey h s)
     = activeRequestProgressCallbacks st (requestKey h s)"
  by (induction evs arbitrary: st) (simp_all add: callbacks_step_other)

lemma callbacks_in_flight_step:
  assumes inv: "\<And>k cb. activeRequestProgressCallbacks st k = Some cb
      \<Longrightarrow> \<exists>h s cb'. (h, s, cb') \<in> set cs \<and> requestKey h s = k"
    and k: "activeRequestProgressCallbacks (step ps ev st) k = Some cb"
  shows "\<exists>h s cb'. (h, s, cb') \<in> set (track ev cs) \<and> requestKey h s = k"
proof (cases ev)
  case (ProvideReply h request progress)
  show ?thesis
  proof (cases "k = requestKey h (session_id (session request))")
    case True
    with ProvideReply show ?thesis by auto
  next
    case False
    with ProvideReply k have "activeRequestProgressCallbacks st k = Some cb" by simp
    from inv [OF this] ProvideReply show ?thesis by auto
  qed
next
  case (ReplySettled h request progress answer)
  with k have ne: "k \<noteq> requestKey h (session_id (session request))"
      and old: "activeRequestProgressCallbacks st k = Some cb"
    by (auto split: if_splits)
  from inv [OF old] obtain h' s' cb' where mem: "(h', s', cb') \<in> set cs" and key: "requestKey h' s' = k"
    by blast
  from ne key have "(h', s', cb') \<noteq> (h, session_id (session request), progress)" by auto
  with mem have "(h', s', cb') \<in> set (remove1 (h, session_id (session request), progress) cs)"
    by simp
  with key ReplySettled show ?thesis by auto
next
  case (RegisterProvider h pid ip)
  with k inv show ?thesis by simp
next
  case (UnregisterProvider h)
  with k inv show ?thesis by simp
next
  case (AcceptProgress h s p)
  with k inv show ?thesis by simp
qed

text \<open>Every callback in the map belongs to a call in flight.\<close>

lemma callbacks_in_flight:
  "activeRequestProgressCallbacks (run ps evs initial) k = Some cb
    \<Longrightarrow> \<exists>h s cb'. (h, s, cb') \<in> set (inFlight evs) \<and> requestKey h s = k"
proof (induction evs arbitrary: k cb rule: rev_induct)
  case Nil
  then show ?case by (simp add: initial_def)
next
  case (snoc ev evs)
  from snoc.prems have "activeRequestProgressCallbacks (step ps ev (run ps evs initial)) k = Some cb"
    by simp
  with snoc.IH have "\<exists>h s cb'. (h, s, cb') \<in> set (track ev (inFlight evs)) \<and> requestKey h s = k"
    by (rule callbacks_in_flight_step)
  then show ?case by simp
qed

subsection \<open>Claims about the bridge\<close>

text \<open>
  C1. When the remote call of a \<^verbatim>\<open>provideReply\<close> for a handle and a session settles, the
  progress-callback map has no entry under the composite key of the pair: this holds in every
  state, for a resolved call (which yields the response) and for a rejected one (whose error
  passes through), and so at the end of every run in which a \<^verbatim>\<open>provideReply\<close> call is
  followed, after any events, by its settling.
\<close>

theorem provideReply_settled_removes_callback:
  "activeRequestProgressCallbacks (snd (provideReply_settled h request answer st))
      (requestKey h (session_id (session request))) = None
   \<and> fst (provideReply_settled h request (Inl e) st) = Inl e
   \<and> fst (provideReply_settled h request (Inr dto) st)
       = Inr \<lparr>response_session = session request, followups = dto_followups dto\<rparr>
   \<and> activeRequestProgressCallbacks
        (run ps (earlier @ ProvideReply h request cb # between @ [ReplySettled h request cb answer]) st)
        (requestKey h (session_id (session request))) = None"
  by (simp add: provideReply_settled_def)

text \<open>A run in which the callback is in the map while the call is in flight and gone once the
  remote call is rejected.\<close>

theorem provideReply_settled_removes_callback_witness:
  "activeRequestProgressCallbacks
     (run example_contributions
        [RegisterProvider 2 ''p1'' True, ProvideReply 2 (example_request 7) (example_callback 0)] initial)
     (requestKey 2 7) = Some (example_callback 0)
   \<and> activeRequestProgressCallbacks
     (run example_contributions
        ([RegisterProvider 2 ''p1'' True] @ ProvideReply 2 (example_request 7) (example_callback 0)
          # [] @ [ReplySettled 2 (example_request 7) (example_callback 0) (Inl (Error ''offline''))]) initial)
     (requestKey 2 7) = None"
  using provideReply_settled_removes_callback [of 2 "example_request 7" "Inl (Error ''offline'')" initial
      "Error ''offline''" "\<lparr>dto_followups = None\<rparr>"
      example_contributions "[RegisterProvider 2 ''p1'' True]" "example_callback 0" "[]"]
  by (simp add: example_request_def example_session_def)

text \<open>
  C2. Registering a provider whose id is not in the static contribution list throws, and the
  whole state is as before: no registration, no provider installed in the service, no
  callback, and no remote call issued.
\<close>

theorem register_undeclared_provider_fails:
  "pid \<notin> contribution_id ` set ps \<Longrightarrow>
   registerInteractiveSessionProvider ps h pid ip st
     = (Inl (Error (''Provider '' @ pid @ '' must be declared in the package.json.'')), st)"
proof -
  assume "pid \<notin> contribution_id ` set ps"
  then have "find (\<lambda>staticProvider. contribution_id staticProvider = pid) ps = None"
    by (auto simp add: find_None_iff)
  then show ?thesis by (simp add: registerInteractiveSessionProvider_def)
qed

theorem register_undeclared_provider_fails_witness:
  "''p2'' \<notin> contribution_id ` set example_contributions
   \<and> registerInteractiveSessionProvider example_contributions 1 ''p2'' True initial
       = (Inl (Error ''Provider p2 must be declared in the package.json.''), initial)"
  using register_undeclared_provider_fails [of "''p2''" example_contributions 1 True initial]
  by (simp add: example_contributions_def)

text \<open>A declared id, for comparison: the provider is installed and stored under the handle.\<close>

lemma register_declared_provider:
  "registerInteractiveSessionProvider example_contributions 1 ''p1'' True initial
     = (Inr (), initial
         \<lparr>registrations := [1 \<mapsto> \<lparr>provider_id = ''p1'', progressiveRenderingEnabled = True,
             provider_handle = 1,
             provider_registration = \<lparr>contribution_id = ''p1'', extensionIcon = Some ''icon.png''\<rparr>\<rparr>],
          serviceProviders := [\<lparr>provider_id = ''p1'', progressiveRenderingEnabled = True,
             provider_handle = 1,
             provider_registration = \<lparr>contribution_id = ''p1'', extensionIcon = Some ''icon.png''\<rparr>\<rparr>]\<rparr>)"
  by (simp add: example_contributions_def registerInteractiveSessionProvider_def Let_def
      registerProvider_def initial_def)

text \<open>
  C3. After any run of the bridge from its initial state, if no \<^verbatim>\<open>provideReply\<close> call for the
  pair of a handle and a session id is in flight, then progress for that pair does not throw
  and leaves the whole state of the bridge unchanged.
\<close>

theorem progress_without_request_is_ignored:
  "(h, s) \<notin> set (inFlightPairs evs) \<Longrightarrow>
   acceptInteractiveResponseProgress h s p (run ps evs initial) = (Inr (), run ps evs initial)"
proof -
  assume free: "(h, s) \<notin> set (inFlightPairs evs)"
  have "activeRequestProgressCallbacks (run ps evs initial) (requestKey h s) = None"
  proof (rule ccontr)
    assume "activeRequestProgressCallbacks (run ps evs initial) (requestKey h s) \<noteq> None"
    then obtain cb where "activeRequestProgressCallbacks (run ps evs initial) (requestKey h s) = Some cb"
      by blast
    then obtain h' s' cb' where "(h', s', cb') \<in> set (inFlight evs)" "requestKey h' s' = requestKey h s"
      using callbacks_in_flight by blast
    then have "(h, s) \<in> set (inFlightPairs evs)" by (force simp add: inFlightPairs_def)
    with free show False by simp
  qed
  then show ?thesis by (simp add: acceptInteractiveResponseProgress_def)
qed

text \<open>The scenario of the spec: provider 1 registered, a reply for session 42 asked and
  settled, provider 1 unregistered; progress for (1, 42) is then a no-op.\<close>

theorem progress_without_request_is_ignored_witness:
  "(1, 42) \<notin> set (inFlightPairs settled_run)
   \<and> acceptInteractiveResponseProgress 1 42 example_progress (run example_contributions settled_run initial)
       = (Inr (), run example_contributions settled_run initial)"
proof -
  have free: "(1, 42) \<notin> set (inFlightPairs settled_run)"
    by (simp add: inFlightPairs_def inFlight_def settled_run_def)
  from free progress_without_request_is_ignored [OF free, of example_progress example_contributions]
  show ?thesis by simp
qed

text \<open>
  C4, as the claim states it, fails: after two \<^verbatim>\<open>provideReply\<close> calls for handle 2 and session
  7, both in flight, progress for (2, 7) is delivered to the callback of the second call only;
  the callback of the first call, which has registered and not settled, is not invoked.
\<close>

theorem progress_misses_superseded_callback:
  "wellformed overlapping_replies
   \<and> (2, 7, example_callback 0) \<in> set (inFlight overlapping_replies)
   \<and> example_callback 0 \<noteq> example_callback 1
   \<and> progressDelivered (snd (acceptInteractiveResponseProgress 2 7 example_progress
        (run example_contributions overlapping_replies initial)))
      = [(example_callback 1, example_progress)]"
  by (simp add: wellformed_def inFlight_def overlapping_replies_def example_request_def
      example_session_def example_callback_def acceptInteractiveResponseProgress_def
      registerInteractiveSessionProvider_def Let_def registerProvider_def
      provideReply_call_def initial_def example_contributions_def)

text \<open>
  C4, amended. If a \<^verbatim>\<open>provideReply\<close> call for handle \<open>h\<close> and session \<open>s\<close> has registered its
  progress callback and, since then, no \<^verbatim>\<open>provideReply\<close> call for the same pair has started or
  settled (the call itself included), then one \<^verbatim>\<open>$acceptInteractiveResponseProgress(h, s, p)\<close>
  invokes that callback exactly once, with the payload \<open>p\<close>: the record of invocations grows
  by the one entry \<open>(cb, p)\<close>, nothing else changes, and the call throws only what the
  callback throws.
\<close>

theorem progress_reaches_registered_callback:
  "\<forall>ev \<in> set later. \<not> replies_for h (session_id (session request)) ev \<Longrightarrow>
   acceptInteractiveResponseProgress h (session_id (session request)) p
       (run ps (earlier @ ProvideReply h request cb # later) st)
     = ((case callback_outcome cb p of None \<Rightarrow> Inr () | Some e \<Rightarrow> Inl e),
        (run ps (earlier @ ProvideReply h request cb # later) st)
          \<lparr>progressDelivered :=
             progressDelivered (run ps (earlier @ ProvideReply h request cb # later) st) @ [(cb, p)]\<rparr>)"
proof -
  assume "\<forall>ev \<in> set later. \<not> replies_for h (session_id (session request)) ev"
  then have "activeRequestProgressCallbacks (run ps (earlier @ ProvideReply h request cb # later) st)
      (requestKey h (session_id (session request))) = Some cb"
    by (simp add: callbacks_run_other)
  then show ?thesis by (simp add: acceptInteractiveResponseProgress_def)
qed

text \<open>The scenario of the spec, handle 2 and session 7, with progress and a reply for session
  8 and the unregistration of the provider in between.\<close>

theorem progress_reaches_registered_callback_witness:
  "\<not> replies_for 2 7 (AcceptProgress 2 8 example_progress)
   \<and> \<not> replies_for 2 7 (ProvideReply 2 (example_request 8) (example_callback 1))
   \<and> \<not> replies_for 2 7 (UnregisterProvider 2)
   \<and> progressDelivered (snd (acceptInteractiveResponseProgress 2 7 example_progress
        (run example_contributions
          [RegisterProvider 2 ''p1'' True, ProvideReply 2 (example_request 7) (example_callback 0),
           AcceptProgress 2 8 example_progress, ProvideReply 2 (example_request 8) (example_callback 1),
           UnregisterProvider 2] initial)))
      = [(example_callback 0, example_progress)]"
  using progress_reaches_registered_callback
    [of "[AcceptProgress 2 8 example_progress, ProvideReply 2 (example_request 8) (example_callback 1),
           UnregisterProvider 2]" 2 "example_request 7" example_progress example_contributions
        "[RegisterProvider 2 ''p1'' True]" "example_callback 0" initial]
  by (simp add: example_request_def example_session_def acceptInteractiveResponseProgress_def
      registerInteractiveSessionProvider_def Let_def registerProvider_def
      unregisterInteractiveSessionProvider_def disposeRegistration_def provideReply_call_def
      initial_def example_contributions_def)

text \<open>
  C5. \<^verbatim>\<open>prepareSession\<close> yields no session when the remote side returns nothing. When the
  remote side returns a session, it yields a session with the remote id, whose requester and
  responder names are the remote ones where present and \<open>''Username''\<close> and \<open>''Response''\<close>
  otherwise, and whose dispose hook issues \<^verbatim>\<open>$releaseSession\<close> with the session id.
\<close>

theorem prepareSession_wraps_remote_session:
  "prepareSession_settled registration (Inr None) = Inr None
   \<and> (\<exists>s. prepareSession_settled registration (Inr (Some dto)) = Inr (Some s))
   \<and> (prepareSession_settled registration (Inr (Some dto)) = Inr (Some s) \<longrightarrow>
        session_id s = dto_id dto
        \<and> (\<forall>u. dto_requesterUsername dto = Some u \<longrightarrow> requesterUsername s = u)
        \<and> (dto_requesterUsername dto = None \<longrightarrow> requesterUsername s = ''Username'')
        \<and> (\<forall>u. dto_responderUsername dto = Some u \<longrightarrow> responderUsername s = u)
        \<and> (dto_responderUsername dto = None \<longrightarrow> responderUsername s = ''Response'')
        \<and> dispose s st = st\<lparr>remoteCalls := remoteCalls st @ [ReleaseSession (dto_id dto)]\<rparr>)"
  by (auto simp add: prepareSession_settled_def releaseSession_def)

text \<open>A remote session 7 with a responder name and no requester name.\<close>

theorem prepareSession_wraps_remote_session_witness:
  "prepareSession_settled (hd example_contributions) (Inr (Some example_dto))
     = Inr (Some ((example_session 7)
         \<lparr>responderUsername := ''Bot'', responderAvatarIconUri := Some ''icon.png''\<rparr>))
   \<and> dto_requesterUsername example_dto = None
   \<and> dto_responderUsername example_dto = Some ''Bot''
   \<and> requesterUsername ((example_session 7)
         \<lparr>responderUsername := ''Bot'', responderAvatarIconUri := Some ''icon.png''\<rparr>) = ''Username''
   \<and> remoteCalls (dispose ((example_session 7)
         \<lparr>responderUsername := ''Bot'', responderAvatarIconUri := Some ''icon.png''\<rparr>) initial)
       = [ReleaseSession 7]"
  using prepareSession_wraps_remote_session [of "hd example_contributions" example_dto
      "(example_session 7)\<lparr>responderUsername := ''Bot'', responderAvatarIconUri := Some ''icon.png''\<rparr>"
      initial]
  by (simp add: prepareSession_settled_def example_dto_def example_session_def
      example_contributions_def initial_def)



section \<open>Properties of the hover controller\<close>

lemma hover_run_Nil [simp]: "hover_run [] st = st"
  by (simp add: hover_run_def)

lemma hover_run_Cons [simp]: "hover_run (ev # evs) st = hover_run evs (hover_step ev st)"
  by (simp add: hover_run_def)

lemma optional_simps [simp]:
  "optional flag None = False" "optional flag (Some w) = flag w"
  by (simp_all add: optional_def)

lemma optional_hidden_content [simp]: "\<not> optional isVisible (map_option content_hide w)"
  by (cases w) (simp_all add: content_hide_def)

lemma optional_hidden_margin [simp]: "\<not> optional margin_isVisible (map_option margin_hide g)"
  by (cases g) (simp_all add: margin_hide_def)

lemma contentWidget_update_same: "contentWidget st = w \<Longrightarrow> st\<lparr>contentWidget := w\<rparr> = st"
  by (cases st) simp

text \<open>Hiding what is hidden leaves it hidden, suppressed or not.\<close>

lemma hideWidgets_keeps_hidden:
  "\<not> optional isVisible (contentWidget st) \<Longrightarrow> \<not> optional margin_isVisible (glyphWidget st) \<Longrightarrow>
   \<not> optional isVisible (contentWidget (hideWidgets st))
   \<and> \<not> optional margin_isVisible (glyphWidget (hideWidgets st))"
  by (simp add: hideWidgets_def)

text \<open>A mouse-move over a position that is neither hoverable nor a glyph margin position does
  nothing, or hides, or creates the content widget and hides.\<close>

lemma onEditorMouseMove_plain:
  assumes "\<not> hoverable m"
    and "\<not> (target_type m = GUTTER_GLYPH_MARGIN \<and> target_position m \<noteq> None)"
  shows "onEditorMouseMove m st = st \<or> onEditorMouseMove m st = hideWidgets st
    \<or> onEditorMouseMove m st = hideWidgets (st\<lparr>contentWidget := Some new_ContentHoverController\<rparr>)"
  using assms
  by (cases "contentWidget st"; cases "target_position m")
    (simp_all add: onEditorMouseMove_def getOrCreateContentWidget_def maybeShowAt_def
      contentWidget_update_same)

lemma onEditorMouseMove_keeps_hidden:
  assumes m: "\<not> hoverable m"
      "\<not> (target_type m = GUTTER_GLYPH_MARGIN \<and> target_position m \<noteq> None)"
    and hidden: "\<not> optional isVisible (contentWidget st)" "\<not> optional margin_isVisible (glyphWidget st)"
  shows "\<not> optional isVisible (contentWidget (onEditorMouseMove m st))
     \<and> \<not> optional margin_isVisible (glyphWidget (onEditorMouseMove m st))"
proof -
  have fresh: "\<not> optional isVisible (contentWidget (st\<lparr>contentWidget := Some new_ContentHoverController\<rparr>))"
      "\<not> optional margin_isVisible (glyphWidget (st\<lparr>contentWidget := Some new_ContentHoverController\<rparr>))"
    using hidden by (simp_all add: new_ContentHoverController_def)
  from onEditorMouseMove_plain [OF m, of st] hidden hideWidgets_keeps_hidden [OF hidden]
    hideWidgets_keeps_hidden [OF fresh]
  show ?thesis by metis
qed

text \<open>
  C6. In every state of the controller in which hover is sticky (reachable or not, the content
  widget visible or not), a mouse-move whose target is the content hover widget leaves the
  state of the controller and of both widgets as it is; so it hides neither widget.
\<close>

theorem sticky_mouse_move_on_content_hover_is_noop:
  "isHoverSticky st \<Longrightarrow> target_type e = CONTENT_WIDGET \<Longrightarrow>
   target_detail e = Some ContentHoverWidget_ID \<Longrightarrow> onEditorMouseMove e st = st"
  by (simp add: onEditorMouseMove_def)

text \<open>A sticky controller whose content widget shows after a mouse-move over code.\<close>

theorem sticky_mouse_move_on_content_hover_is_noop_witness:
  "isHoverSticky (hover_run [MouseMove mouse_on_code] (new_ModesHoverController True True))
   \<and> optional isVisible (contentWidget (hover_run [MouseMove mouse_on_code] (new_ModesHoverController True True)))
   \<and> target_type mouse_on_content_hover = CONTENT_WIDGET
   \<and> target_detail mouse_on_content_hover = Some ContentHoverWidget_ID
   \<and> onEditorMouseMove mouse_on_content_hover
        (hover_run [MouseMove mouse_on_code] (new_ModesHoverController True True))
      = hover_run [MouseMove mouse_on_code] (new_ModesHoverController True True)"
proof -
  have a: "isHoverSticky (hover_run [MouseMove mouse_on_code] (new_ModesHoverController True True))"
    and b: "target_type mouse_on_content_hover = CONTENT_WIDGET"
    and c: "target_detail mouse_on_content_hover = Some ContentHoverWidget_ID"
    and d: "optional isVisible (contentWidget (hover_run [MouseMove mouse_on_code] (new_ModesHoverController True True)))"
    by (simp_all add: mouse_on_code_def mouse_on_content_hover_def mouse_at_def
        new_ModesHoverController_def onEditorMouseMove_def getOrCreateContentWidget_def
        maybeShowAt_def new_ContentHoverController_def)
  from a b c d sticky_mouse_move_on_content_hover_is_noop [OF a b c] show ?thesis by simp
qed

text \<open>
  C7, as the claim states it, fails: with the glyph widget showing and the inline-suggestion
  dropdown open, a mouse-down on text followed by a mouse-move over an empty, not hoverable
  position leaves the glyph widget visible.
\<close>

theorem mouse_down_then_move_keeps_glyph_under_dropdown:
  "\<not> (target_type (mouse_at CONTENT_TEXT) = CONTENT_WIDGET
        \<and> target_detail (mouse_at CONTENT_TEXT) = Some ContentHoverWidget_ID)
   \<and> \<not> (target_type (mouse_at CONTENT_TEXT) = OVERLAY_WIDGET
        \<and> target_detail (mouse_at CONTENT_TEXT) = Some MarginHoverWidget_ID)
   \<and> \<not> hoverable (mouse_at CONTENT_EMPTY)
   \<and> \<not> (target_type (mouse_at CONTENT_EMPTY) = GUTTER_GLYPH_MARGIN
        \<and> target_position (mouse_at CONTENT_EMPTY) \<noteq> None)
   \<and> optional margin_isVisible (glyphWidget
        (onEditorMouseMove (mouse_at CONTENT_EMPTY) (onEditorMouseDown (mouse_at CONTENT_TEXT)
           (hover_run glyph_then_dropdown (new_ModesHoverController True False)))))"
  by (simp add: glyph_then_dropdown_def mouse_at_def mouse_on_glyph_def new_ModesHoverController_def
      onEditorMouseMove_def onEditorMouseDown_def hideWidgets_def Let_def getOrCreateContentWidget_def
      maybeShowAt_def new_ContentHoverController_def new_MarginHoverWidget_def startShowingAt_def
      content_hide_def)

lemma clicked_color_picker_reachable:
  "hover_run click_in_color_picker (new_ModesHoverController True False) = clicked_color_picker"
  by (simp add: click_in_color_picker_def clicked_color_picker_def mouse_on_code_def
      mouse_on_content_hover_def mouse_at_def new_ModesHoverController_def onEditorMouseMove_def
      onEditorMouseDown_def onEditorMouseUp_def Let_def getOrCreateContentWidget_def maybeShowAt_def
      new_ContentHoverController_def)

text \<open>The other guard of \<^verbatim>\<open>_hideWidgets\<close> has the same effect: after a click inside a hover
  whose color picker is open, a mouse-down on another overlay widget keeps \<open>hoverClicked\<close>, the
  hide is suppressed, and the mouse-move returns at once.\<close>

lemma mouse_down_on_overlay_keeps_clicked_hover:
  "optional isVisible (contentWidget
     (onEditorMouseMove (mouse_at CONTENT_EMPTY)
        (onEditorMouseDown (mouse_at OVERLAY_WIDGET) clicked_color_picker)))"
  by (simp add: clicked_color_picker_def mouse_at_def onEditorMouseMove_def onEditorMouseDown_def
      hideWidgets_def Let_def)

text \<open>A third way in which the two events hide nothing: the mouse-down handler is hooked only
  while hover is enabled. With hover disabled and sticky, a hover shown from the keyboard
  survives the mouse-down, which is not handled, and the mouse-move, which returns at the
  sticky keyboard guard before it looks at the enabled flag.\<close>

lemma disabled_keyboard_hover_survives:
  "\<not> isHoverEnabled (hover_run [ShowContentHover Keyboard] (new_ModesHoverController False True))
   \<and> optional isVisible (contentWidget
        (hover_run [ShowContentHover Keyboard, MouseDown (mouse_at CONTENT_TEXT),
           MouseMove (mouse_at CONTENT_EMPTY)] (new_ModesHoverController False True)))"
  by (simp add: mouse_at_def new_ModesHoverController_def showContentHover_def
      startShowingAtRange_def onEditorMouseMove_def getOrCreateContentWidget_def
      new_ContentHoverController_def)

text \<open>The two handlers one after the other, where the hide of the mouse-down is not
  suppressed.\<close>

lemma onEditorMouseDown_then_move_hidden:
  assumes "\<not> (target_type d = CONTENT_WIDGET \<and> target_detail d = Some ContentHoverWidget_ID)"
    and "\<not> (target_type d = OVERLAY_WIDGET \<and> target_detail d = Some MarginHoverWidget_ID)"
    and "\<not> hoverable m"
    and "\<not> (target_type m = GUTTER_GLYPH_MARGIN \<and> target_position m \<noteq> None)"
    and "\<not> dropDownVisible st"
    and "\<not> (target_type d = OVERLAY_WIDGET \<and> hoverClicked st
          \<and> optional isColorPickerVisible (contentWidget st))"
  shows "\<not> optional isVisible (contentWidget (onEditorMouseMove m (onEditorMouseDown d st)))
     \<and> \<not> optional margin_isVisible (glyphWidget (onEditorMouseMove m (onEditorMouseDown d st)))"
proof -
  have "\<not> optional isVisible (contentWidget (onEditorMouseDown d st))
     \<and> \<not> optional margin_isVisible (glyphWidget (onEditorMouseDown d st))"
    using assms(1,2,5,6) by (auto simp add: onEditorMouseDown_def Let_def hideWidgets_def)
  with assms(3,4) show ?thesis by (simp add: onEditorMouseMove_keeps_hidden)
qed

text \<open>
  C7, amended. In every state in which hover is enabled (so that the mouse-down is handled),
  the inline-suggestion dropdown is not visible, and it is not the case that the hover was
  clicked, its color picker is visible and the mouse-down hits an overlay widget: a
  mouse-down whose target is outside both hover widgets, followed at once by a mouse-move
  over a target that is neither hoverable nor a glyph margin position, both processed as the
  controller hooks them, leaves both the content widget and the glyph widget hidden.
\<close>

theorem mouse_down_then_move_hides_widgets:
  assumes "isHoverEnabled st"
    and "\<not> (target_type d = CONTENT_WIDGET \<and> target_detail d = Some ContentHoverWidget_ID)"
    and "\<not> (target_type d = OVERLAY_WIDGET \<and> target_detail d = Some MarginHoverWidget_ID)"
    and "\<not> hoverable m"
    and "\<not> (target_type m = GUTTER_GLYPH_MARGIN \<and> target_position m \<noteq> None)"
    and "\<not> dropDownVisible st"
    and "\<not> (target_type d = OVERLAY_WIDGET \<and> hoverClicked st
          \<and> optional isColorPickerVisible (contentWidget st))"
  shows "\<not> optional isVisible (contentWidget (hover_run [MouseDown d, MouseMove m] st))
     \<and> \<not> optional margin_isVisible (glyphWidget (hover_run [MouseDown d, MouseMove m] st))"
proof -
  from assms(1) have "hover_run [MouseDown d, MouseMove m] st
      = onEditorMouseMove m (onEditorMouseDown d st)"
    by simp
  with onEditorMouseDown_then_move_hidden [OF assms(2-7)] show ?thesis by simp
qed

text \<open>The content widget shows after a mouse-move over code; a mouse-down on text and a
  mouse-move over an empty position hide it.\<close>

theorem mouse_down_then_move_hides_widgets_witness:
  "isHoverEnabled (hover_run [MouseMove mouse_on_code] (new_ModesHoverController True False))
   \<and> optional isVisible (contentWidget (hover_run [MouseMove mouse_on_code] (new_ModesHoverController True False)))
   \<and> \<not> dropDownVisible (hover_run [MouseMove mouse_on_code] (new_ModesHoverController True False))
   \<and> \<not> hoverClicked (hover_run [MouseMove mouse_on_code] (new_ModesHoverController True False))
   \<and> target_type (mouse_at CONTENT_TEXT) = CONTENT_TEXT
   \<and> \<not> hoverable (mouse_at CONTENT_EMPTY)
   \<and> target_type (mouse_at CONTENT_EMPTY) = CONTENT_EMPTY
   \<and> \<not> optional isVisible (contentWidget
        (hover_run [MouseDown (mouse_at CONTENT_TEXT), MouseMove (mouse_at CONTENT_EMPTY)]
           (hover_run [MouseMove mouse_on_code] (new_ModesHoverController True False))))
   \<and> \<not> optional margin_isVisible (glyphWidget
        (hover_run [MouseDown (mouse_at CONTENT_TEXT), MouseMove (mouse_at CONTENT_EMPTY)]
           (hover_run [MouseMove mouse_on_code] (new_ModesHoverController True False))))"
proof -
  have d: "target_type (mouse_at CONTENT_TEXT) = CONTENT_TEXT"
    and m: "\<not> hoverable (mouse_at CONTENT_EMPTY)" "target_type (mouse_at CONTENT_EMPTY) = CONTENT_EMPTY"
    by (simp_all add: mouse_at_def)
  have st: "isHoverEnabled (hover_run [MouseMove mouse_on_code] (new_ModesHoverController True False))"
      "optional isVisible (contentWidget (hover_run [MouseMove mouse_on_code] (new_ModesHoverController True False)))"
      "\<not> dropDownVisible (hover_run [MouseMove mouse_on_code] (new_ModesHoverController True False))"
      "\<not> hoverClicked (hover_run [MouseMove mouse_on_code] (new_ModesHoverController True False))"
    by (simp_all add: mouse_on_code_def mouse_at_def new_ModesHoverController_def
        onEditorMouseMove_def getOrCreateContentWidget_def maybeShowAt_def new_ContentHoverController_def)
  have "\<not> optional isVisible (contentWidget
        (hover_run [MouseDown (mouse_at CONTENT_TEXT), MouseMove (mouse_at CONTENT_EMPTY)]
           (hover_run [MouseMove mouse_on_code] (new_ModesHoverController True False))))
     \<and> \<not> optional margin_isVisible (glyphWidget
        (hover_run [MouseDown (mouse_at CONTENT_TEXT), MouseMove (mouse_at CONTENT_EMPTY)]
           (hover_run [MouseMove mouse_on_code] (new_ModesHoverController True False))))"
    using d m st(1,3,4)
    by (intro mouse_down_then_move_hides_widgets) simp_all
  with d m st show ?thesis by simp
qed

text \<open>
  C8. \<^verbatim>\<open>_hideWidgets\<close> does nothing, so both widgets keep their visibility and \<open>hoverClicked\<close>
  its value, when the mouse is down, the hover was clicked and the color picker is visible,
  or when the inline-suggestion dropdown is visible; in every other state it clears
  \<open>hoverClicked\<close> and hides both widgets, and changes nothing else.
\<close>

theorem hideWidgets_suppressed_or_hides:
  "((isMouseDown st \<and> hoverClicked st \<and> optional isColorPickerVisible (contentWidget st))
      \<or> dropDownVisible st
      \<longrightarrow> hideWidgets st = st)
   \<and> (\<not> ((isMouseDown st \<and> hoverClicked st \<and> optional isColorPickerVisible (contentWidget st))
         \<or> dropDownVisible st)
      \<longrightarrow> \<not> hoverClicked (hideWidgets st)
        \<and> \<not> optional isVisible (contentWidget (hideWidgets st))
        \<and> \<not> optional margin_isVisible (glyphWidget (hideWidgets st))
        \<and> hideWidgets st = st\<lparr>hoverClicked := False,
              glyphWidget := map_option margin_hide (glyphWidget st),
              contentWidget := map_option content_hide (contentWidget st)\<rparr>)"
  by (simp add: hideWidgets_def)

text \<open>Both sides: the hover with a clicked color picker while the mouse is down is kept; once
  the mouse is up it is hidden.\<close>

theorem hideWidgets_suppressed_or_hides_witness:
  "isMouseDown (clicked_color_picker\<lparr>isMouseDown := True\<rparr>)
   \<and> hoverClicked (clicked_color_picker\<lparr>isMouseDown := True\<rparr>)
   \<and> optional isColorPickerVisible (contentWidget (clicked_color_picker\<lparr>isMouseDown := True\<rparr>))
   \<and> hideWidgets (clicked_color_picker\<lparr>isMouseDown := True\<rparr>) = clicked_color_picker\<lparr>isMouseDown := True\<rparr>
   \<and> \<not> isMouseDown clicked_color_picker \<and> \<not> dropDownVisible clicked_color_picker
   \<and> optional isVisible (contentWidget clicked_color_picker)
   \<and> \<not> hoverClicked (hideWidgets clicked_color_picker)
   \<and> \<not> optional isVisible (contentWidget (hideWidgets clicked_color_picker))"
proof -
  have down: "isMouseDown (clicked_color_picker\<lparr>isMouseDown := True\<rparr>)"
      "hoverClicked (clicked_color_picker\<lparr>isMouseDown := True\<rparr>)"
      "optional isColorPickerVisible (contentWidget (clicked_color_picker\<lparr>isMouseDown := True\<rparr>))"
    and up: "\<not> isMouseDown clicked_color_picker" "\<not> dropDownVisible clicked_color_picker"
      "optional isVisible (contentWidget clicked_color_picker)"
    by (simp_all add: clicked_color_picker_def)
  from down up hideWidgets_suppressed_or_hides [of "clicked_color_picker\<lparr>isMouseDown := True\<rparr>"]
    hideWidgets_suppressed_or_hides [of clicked_color_picker]
  show ?thesis by simp
qed

end
